theory Spec2Isabelle
  imports Main
begin

section \<open>The message transport of the DHT node (dht\_net.go)\<close>

text \<open>
  A shallow embedding of \<^verbatim>\<open>dht_net.go\<close>. The functions of that file call into
  collaborators that live elsewhere (the peer store, the handler registry, the stream pool,
  the pooled session type, the metrics sink, the clock, the byte stream). Each collaborator
  call is written into a trace of events, in program order; what a collaborator returns is a
  parameter of the model, so every theorem holds for every behaviour of the collaborators.
\<close>

subsection \<open>Data\<close>

type_synonym peer_ID = string      \<comment> \<open>\<^verbatim>\<open>peer.ID\<close>, a string type\<close>
type_synonym MessageType = int     \<comment> \<open>the type tag of a \<^verbatim>\<open>pb.Message\<close>\<close>
type_synonym stream = nat          \<comment> \<open>the identity of a pooled session (\<^verbatim>\<open>*stream\<close>)\<close>
type_synonym nanos = int           \<comment> \<open>clock readings and durations, in nanoseconds\<close>

record pb_Message =
  GetType :: MessageType
  GetKey :: string

text \<open>
  Go errors are compared by identity: \<^verbatim>\<open>io.EOF\<close> is one value, every other error
  is told apart here by its message only.
\<close>

datatype error = EOF | Err string

fun Error :: "error \<Rightarrow> string" where
  "Error EOF = ''EOF''"
| "Error (Err s) = s"

definition dhtReadMessageTimeout :: nanos where
  "dhtReadMessageTimeout = 60 * 1000000000"

definition ErrReadTimeout :: error where
  "ErrReadTimeout = Err ''timed out reading response''"

text \<open>What one call of \<^verbatim>\<open>r.ReadMsg(&req)\<close> returns.\<close>

datatype read_result = ReadOk pb_Message | ReadErr error

datatype event =
    E_sentMessages pb_Message                \<comment> \<open>\<^verbatim>\<open>recordOutboundMessage\<close>: count and size\<close>
  | E_messageWriteLatency pb_Message         \<comment> \<open>the closure of \<^verbatim>\<open>beginMessageWriteLatency\<close>\<close>
  | E_streamPool_get peer_ID
  | E_newStream peer_ID
  | E_streamPool_put stream peer_ID
  | E_request stream pb_Message
  | E_send stream pb_Message
  | E_reset stream
  | E_err stream
  | E_go stream                              \<comment> \<open>the \<^verbatim>\<open>go func()\<close> of \<^verbatim>\<open>sendRequest\<close>\<close>
  | E_SupportsProtocols peer_ID
  | E_Update peer_ID
  | E_RecordLatency peer_ID nanos
  | E_ReadMsg nanos read_result              \<comment> \<open>how long the read blocked, and what it returned\<close>
  | E_receivedMessages pb_Message            \<comment> \<open>count and size of a received message\<close>
  | E_handler MessageType peer_ID pb_Message
  | E_WriteMsg pb_Message "error option"
  | E_Flush "error option"
  | E_inboundRequestHandlingTime pb_Message
  | E_Debugf string
  | E_Warningf string
  | E_Close
  | E_Reset

type_synonym dhtHandler = "peer_ID \<Rightarrow> pb_Message \<Rightarrow> error + pb_Message option"

text \<open>
  The node and its collaborators. \<open>SupportsProtocols\<close> is the peer store's answer;
  \<open>handlerForMsgType\<close> the handler registry; \<open>streamPool_get\<close> and \<open>newStream\<close>
  the two sources of a session; \<open>stream_request\<close>, \<open>stream_send\<close> and
  \<open>stream_err\<close> what the session's \<^verbatim>\<open>request\<close>, \<^verbatim>\<open>send\<close> and
  \<^verbatim>\<open>err\<close> return (\<open>None\<close> is Go's nil error).
\<close>

record IpfsDHT =
  SupportsProtocols :: "peer_ID \<Rightarrow> error + string list"
  handlerForMsgType :: "MessageType \<Rightarrow> dhtHandler option"
  streamPool_get :: "peer_ID \<Rightarrow> stream option"
  newStream :: "peer_ID \<Rightarrow> error + stream"
  stream_request :: "stream \<Rightarrow> pb_Message \<Rightarrow> error option"
  stream_send :: "stream \<Rightarrow> pb_Message \<Rightarrow> error option"
  stream_err :: "stream \<Rightarrow> error option"

subsection \<open>Peer bookkeeping\<close>

definition updateFromMessage ::
  "IpfsDHT \<Rightarrow> peer_ID \<Rightarrow> pb_Message \<Rightarrow> event list \<Rightarrow> error option \<times> event list" where
  "updateFromMessage dht p mes tr =
     (let tr1 = tr @ [E_SupportsProtocols p] in
      case SupportsProtocols dht p of
        Inr protos \<Rightarrow>
          if length protos > 0 then (None, tr1 @ [E_Update p]) else (None, tr1)
      | Inl err \<Rightarrow> (None, tr1))"

subsection \<open>The client path\<close>

definition recordOutboundMessage :: "pb_Message \<Rightarrow> event list \<Rightarrow> event list" where
  "recordOutboundMessage m tr = tr @ [E_sentMessages m]"

text \<open>The closure returned by \<^verbatim>\<open>beginMessageWriteLatency\<close>, run just before the write.\<close>

definition beginMessageWriteLatency :: "pb_Message \<Rightarrow> event list \<Rightarrow> event list" where
  "beginMessageWriteLatency m tr = tr @ [E_messageWriteLatency m]"

definition getStream :: "IpfsDHT \<Rightarrow> peer_ID \<Rightarrow> event list \<Rightarrow> (error + stream) \<times> event list" where
  "getStream dht p tr =
     (case streamPool_get dht p of
        Some ps \<Rightarrow> (Inr ps, tr @ [E_streamPool_get p])
      | None \<Rightarrow> (newStream dht p, tr @ [E_streamPool_get p, E_newStream p]))"

text \<open>
  The closure \<^verbatim>\<open>onReply\<close> of \<^verbatim>\<open>sendRequest\<close>; \<open>now\<close> is the clock when it
  runs, \<open>start\<close> the clock read before the request was written.
\<close>

definition onReply ::
  "IpfsDHT \<Rightarrow> stream \<Rightarrow> peer_ID \<Rightarrow> nanos \<Rightarrow> pb_Message \<Rightarrow> nanos \<Rightarrow> event list \<Rightarrow> event list" where
  "onReply dht ps p start reply now tr =
     (let tr1 = tr @ [E_streamPool_put ps p];
          tr2 = snd (updateFromMessage dht p reply tr1)
      in tr2 @ [E_RecordLatency p (now - start)])"

text \<open>
  Which case of the \<^verbatim>\<open>select\<close> fires: a reply (and the clock then), the channel
  closed without a value, the context done (with \<^verbatim>\<open>ctx.Err()\<close>), or none of them ever.
\<close>

datatype select_outcome =
    Reply pb_Message nanos
  | Closed
  | Done error
  | Blocked

text \<open>The detached goroutine, with the variables its closure captured.\<close>

datatype goroutine = Goroutine stream peer_ID nanos

text \<open>What the goroutine's receive on the reply channel yields.\<close>

datatype late_outcome = LateReply pb_Message nanos | LateClosed | Never

text \<open>
  \<^verbatim>\<open>sendRequest\<close> returns the pair \<^verbatim>\<open>(reply, err)\<close>, \<open>None\<close> when the
  \<^verbatim>\<open>select\<close> blocks for ever; with it the trace, and the goroutine it left behind.
\<close>

definition sendRequest ::
  "IpfsDHT \<Rightarrow> nanos \<Rightarrow> select_outcome \<Rightarrow> peer_ID \<Rightarrow> pb_Message \<Rightarrow> event list \<Rightarrow>
     (pb_Message option \<times> error option) option \<times> event list \<times> goroutine option" where
  "sendRequest dht start sel p req tr =
     (let tr1 = recordOutboundMessage req tr;
          beforeWrite = beginMessageWriteLatency req
      in case getStream dht p tr1 of
        (Inl err, tr2) \<Rightarrow> (Some (None, Some err), tr2, None)
      | (Inr ps, tr2) \<Rightarrow>
          (let tr3 = beforeWrite tr2 @ [E_request ps req] in
           case stream_request dht ps req of
             Some err \<Rightarrow> (Some (None, Some err), tr3 @ [E_reset ps], None)
           | None \<Rightarrow>
               (case sel of
                  Reply reply now \<Rightarrow>
                    (Some (Some reply, None), onReply dht ps p start reply now tr3, None)
                | Closed \<Rightarrow> (Some (None, stream_err dht ps), tr3 @ [E_err ps], None)
                | Done cerr \<Rightarrow>
                    (Some (None, Some cerr), tr3 @ [E_go ps], Some (Goroutine ps p start))
                | Blocked \<Rightarrow> (None, tr3, None))))"

text \<open>
  The goroutine spawned on cancellation: it receives once from the reply channel and runs
  \<^verbatim>\<open>onReply\<close> if a value came. \<open>None\<close>: the channel never yields.
\<close>

fun detached :: "IpfsDHT \<Rightarrow> goroutine \<Rightarrow> late_outcome \<Rightarrow> event list \<Rightarrow> event list option" where
  "detached dht (Goroutine ps p start) (LateReply reply now) tr =
     Some (onReply dht ps p start reply now tr)"
| "detached dht (Goroutine ps p start) LateClosed tr = Some tr"
| "detached dht (Goroutine ps p start) Never tr = None"

definition sendMessage ::
  "IpfsDHT \<Rightarrow> peer_ID \<Rightarrow> pb_Message \<Rightarrow> event list \<Rightarrow> error option \<times> event list" where
  "sendMessage dht p pmes tr =
     (let tr1 = recordOutboundMessage pmes tr;
          beforeWrite = beginMessageWriteLatency pmes
      in case getStream dht p tr1 of
        (Inl err, tr2) \<Rightarrow> (Some err, tr2)
      | (Inr ps, tr2) \<Rightarrow>
          (let tr3 = beforeWrite tr2 @ [E_send ps pmes] in
           case stream_send dht ps pmes of
             None \<Rightarrow> (None, tr3 @ [E_streamPool_put ps p])
           | Some err \<Rightarrow> (Some err, tr3 @ [E_reset ps])))"

subsection \<open>The server path\<close>

text \<open>
  An inbound stream: the remote peer, what the successive reads return (each with the time
  the read blocked before it returned), and whether a write or a flush fails, given the
  frames already flushed onto the stream.
\<close>

record inet_Stream =
  RemotePeer :: peer_ID
  incoming :: "(nanos \<times> read_result) list"
  write_fails :: "pb_Message list \<Rightarrow> pb_Message \<Rightarrow> error option"
  flush_fails :: "pb_Message list \<Rightarrow> pb_Message list \<Rightarrow> error option"

text \<open>
  The buffered writer: the frames held in the \<^verbatim>\<open>bufio.Writer\<close>, and the frames
  flushed onto the stream.
\<close>

record bufferedDelimitedWriter =
  Writer :: "pb_Message list"
  flushed :: "pb_Message list"

definition newBufferedDelimitedWriter :: bufferedDelimitedWriter where
  "newBufferedDelimitedWriter = \<lparr>Writer = [], flushed = []\<rparr>"

definition WriteMsg ::
  "inet_Stream \<Rightarrow> bufferedDelimitedWriter \<Rightarrow> pb_Message \<Rightarrow> error option \<times> bufferedDelimitedWriter" where
  "WriteMsg s w m =
     (case write_fails s (flushed w) m of
        None \<Rightarrow> (None, w\<lparr>Writer := Writer w @ [m]\<rparr>)
      | Some err \<Rightarrow> (Some err, w))"

definition Flush ::
  "inet_Stream \<Rightarrow> bufferedDelimitedWriter \<Rightarrow> error option \<times> bufferedDelimitedWriter" where
  "Flush s w =
     (case flush_fails s (flushed w) (Writer w) of
        None \<Rightarrow> (None, w\<lparr>flushed := flushed w @ Writer w, Writer := []\<rparr>)
      | Some err \<Rightarrow> (Some err, w))"

text \<open>
  The \<^verbatim>\<open>for\<close> loop of \<^verbatim>\<open>handleNewMessage\<close>, over the reads still to come. When
  they run out the next read blocks for ever and the loop does not return: \<open>None\<close>.
\<close>

fun handleNewMessage_loop ::
  "IpfsDHT \<Rightarrow> inet_Stream \<Rightarrow> (nanos \<times> read_result) list \<Rightarrow> bufferedDelimitedWriter \<Rightarrow> event list \<Rightarrow>
     bool option \<times> bufferedDelimitedWriter \<times> event list" where
  "handleNewMessage_loop dht s [] w tr = (None, w, tr)"
| "handleNewMessage_loop dht s ((d, ReadErr EOF) # rs) w tr =
     (Some True, w, tr @ [E_ReadMsg d (ReadErr EOF)])"
| "handleNewMessage_loop dht s ((d, ReadErr (Err msg)) # rs) w tr =
     (Some False, w,
      tr @ [E_ReadMsg d (ReadErr (Err msg))] @
        (if Error (Err msg) \<noteq> ''stream reset'' then [E_Debugf ''error reading message''] else []))"
| "handleNewMessage_loop dht s ((d, ReadOk req) # rs) w tr =
     (let tr1 = tr @ [E_ReadMsg d (ReadOk req), E_receivedMessages req] in
      case handlerForMsgType dht (GetType req) of
        None \<Rightarrow> (Some False, w, tr1 @ [E_Warningf ''can't handle received message''])
      | Some handler \<Rightarrow>
          (let tr2 = tr1 @ [E_handler (GetType req) (RemotePeer s) req] in
           case handler (RemotePeer s) req of
             Inl err \<Rightarrow> (Some False, w, tr2 @ [E_Debugf ''error handling message''])
           | Inr resp_opt \<Rightarrow>
               (let tr3 = snd (updateFromMessage dht (RemotePeer s) req tr2) in
                case resp_opt of
                  None \<Rightarrow> handleNewMessage_loop dht s rs w tr3
                | Some resp \<Rightarrow>
                    (case WriteMsg s w resp of
                       (Some err, w1) \<Rightarrow>
                         (Some False, w1,
                          tr3 @ [E_WriteMsg resp (Some err), E_Debugf ''error writing response''])
                     | (None, w1) \<Rightarrow>
                         (case Flush s w1 of
                            (Some err, w2) \<Rightarrow>
                              (Some False, w2,
                               tr3 @ [E_WriteMsg resp None, E_Flush (Some err),
                                      E_Debugf ''error writing response''])
                          | (None, w2) \<Rightarrow>
                              handleNewMessage_loop dht s rs w2
                                (tr3 @ [E_WriteMsg resp None, E_Flush None,
                                        E_inboundRequestHandlingTime req]))))))"

definition handleNewMessage ::
  "IpfsDHT \<Rightarrow> inet_Stream \<Rightarrow> event list \<Rightarrow> bool option \<times> bufferedDelimitedWriter \<times> event list" where
  "handleNewMessage dht s tr =
     handleNewMessage_loop dht s (incoming s) newBufferedDelimitedWriter tr"

text \<open>
  \<^verbatim>\<open>handleNewStream\<close>: \<^verbatim>\<open>s.Close()\<close> when the loop returned true, and the deferred
  \<^verbatim>\<open>s.Reset()\<close> on every return. \<open>None\<close> when the loop does not return.
\<close>

definition handleNewStream ::
  "IpfsDHT \<Rightarrow> inet_Stream \<Rightarrow> event list \<Rightarrow> (bufferedDelimitedWriter \<times> event list) option" where
  "handleNewStream dht s tr =
     (case handleNewMessage dht s tr of
        (None, w, tr1) \<Rightarrow> None
      | (Some True, w, tr1) \<Rightarrow> Some (w, tr1 @ [E_Close, E_Reset])
      | (Some False, w, tr1) \<Rightarrow> Some (w, tr1 @ [E_Reset]))"

subsection \<open>The pooled session\<close>

text \<open>
  Modelled from the spec: the states of the pooled session (the type \<^verbatim>\<open>stream\<close> behind
  \<^verbatim>\<open>ps\<close>, which \<^verbatim>\<open>dht_net.go\<close> uses and does not define). Section 4.3 of the
  spec names them: Idle, Sending, AwaitingReply, and Destroyed, which is terminal and holds
  the terminal error recorded for the session.
\<close>

datatype session_state = Idle | Sending | AwaitingReply | Destroyed error





subsection \<open>Observing a run\<close>

text \<open>The events a call added to the trace it was given.\<close>

definition emitted :: "event list \<Rightarrow> event list \<Rightarrow> event list" where
  "emitted tr tr' = drop (length tr) tr'"

text \<open>The events that put something on the wire.\<close>

fun is_write :: "event \<Rightarrow> bool" where
  "is_write (E_WriteMsg m r) = True"
| "is_write (E_Flush r) = True"
| "is_write e = False"

subsection \<open>A concrete node\<close>

text \<open>
  A node used to run the definitions on concrete inputs: it serves \<^verbatim>\<open>FIND_NODE\<close> (tag 4)
  with a response and \<^verbatim>\<open>ADD_PROVIDER\<close> (tag 2) without one, holds an idle session
  \<open>1\<close> for the peer \<open>''QmA''\<close> and can open a session \<open>2\<close> to \<open>''QmB''\<close>, whose
  writes fail.
\<close>

definition ex_req :: pb_Message where
  "ex_req = \<lparr>GetType = 4, GetKey = ''key''\<rparr>"

definition ex_reply :: pb_Message where
  "ex_reply = \<lparr>GetType = 4, GetKey = ''closer peers''\<rparr>"

definition ex_add :: pb_Message where
  "ex_add = \<lparr>GetType = 2, GetKey = ''provider''\<rparr>"

definition ex_unknown :: pb_Message where
  "ex_unknown = \<lparr>GetType = 99, GetKey = ''unknown''\<rparr>"

definition ex_dht :: IpfsDHT where
  "ex_dht =
     \<lparr>SupportsProtocols = (\<lambda>p. Inr [''/ipfs/kad/1.0.0'']),
      handlerForMsgType =
        (\<lambda>t. if t = 4 then Some (\<lambda>p m. Inr (Some ex_reply))
             else if t = 2 then Some (\<lambda>p m. Inr None)
             else None),
      streamPool_get = (\<lambda>p. if p = ''QmA'' then Some 1 else None),
      newStream = (\<lambda>p. if p = ''QmB'' then Inr 2 else Inl (Err ''dial failed'')),
      stream_request = (\<lambda>ps m. if ps = 1 then None else Some (Err ''write failed'')),
      stream_send = (\<lambda>ps m. if ps = 1 then None else Some (Err ''write failed'')),
      stream_err = (\<lambda>ps. Some (Err ''stream closed''))\<rparr>"

text \<open>A peer store whose query fails.\<close>

definition ex_failing_store :: "peer_ID \<Rightarrow> error + string list" where
  "ex_failing_store p = Inl (Err ''peerstore unavailable'')"

text \<open>An inbound stream that takes every write, with the given reads.\<close>

definition ex_stream :: "(nanos \<times> read_result) list \<Rightarrow> inet_Stream" where
  "ex_stream rs =
     \<lparr>RemotePeer = ''QmA'', incoming = rs,
      write_fails = (\<lambda>out m. None), flush_fails = (\<lambda>out buf. None)\<rparr>"

section \<open>Properties\<close>

subsection \<open>Traces\<close>

lemma emitted_append [simp]: "emitted tr (tr @ new) = new"
  by (simp add: emitted_def)

lemma emitted_self [simp]: "emitted tr tr = []"
  by (simp add: emitted_def)

lemma updateFromMessage_trace:
  "snd (updateFromMessage dht p mes tr) =
     tr @ E_SupportsProtocols p #
       (case SupportsProtocols dht p of
          Inr protos \<Rightarrow> if length protos > 0 then [E_Update p] else []
        | Inl err \<Rightarrow> [])"
  by (simp add: updateFromMessage_def split: sum.splits)

lemma getStream_trace:
  "snd (getStream dht p tr) =
     tr @ E_streamPool_get p #
       (case streamPool_get dht p of Some ps \<Rightarrow> [] | None \<Rightarrow> [E_newStream p])"
  by (simp add: getStream_def split: option.splits)

lemma onReply_trace:
  "onReply dht ps p start reply now tr =
     tr @ E_streamPool_put ps p # E_SupportsProtocols p #
       (case SupportsProtocols dht p of
          Inr protos \<Rightarrow> if length protos > 0 then [E_Update p] else []
        | Inl err \<Rightarrow> []) @
       [E_RecordLatency p (now - start)]"
  by (simp add: onReply_def updateFromMessage_trace)

lemma acquired_trace:
  assumes "getStream dht p (recordOutboundMessage req tr) = (r, tr2)"
  shows "tr2 = tr @ E_sentMessages req # E_streamPool_get p #
      (case streamPool_get dht p of Some ps \<Rightarrow> [] | None \<Rightarrow> [E_newStream p])"
  using getStream_trace [of dht p "recordOutboundMessage req tr"] assms
  by (simp add: recordOutboundMessage_def)

lemmas ex_defs = ex_dht_def ex_req_def ex_reply_def ex_add_def ex_unknown_def ex_stream_def
  ex_failing_store_def

lemmas run_defs = handleNewStream_def handleNewMessage_def newBufferedDelimitedWriter_def
  WriteMsg_def Flush_def updateFromMessage_def Let_def sendRequest_def sendMessage_def
  getStream_def recordOutboundMessage_def beginMessageWriteLatency_def onReply_def

subsection \<open>The dispatcher loop and its trace\<close>

lemma loop_shift:
  "handleNewMessage_loop dht s rs w (tr @ tr') =
     (case handleNewMessage_loop dht s rs w tr' of (b, w', new) \<Rightarrow> (b, w', tr @ new))"
proof (induction rs arbitrary: w tr tr')
  case Nil
  then show ?case by simp
next
  case (Cons r rs)
  obtain d rr where r: "r = (d, rr)" by (cases r)
  show ?case
  proof (cases rr)
    case (ReadErr e)
    then show ?thesis using r by (cases e) simp_all
  next
    case (ReadOk req)
    then show ?thesis using r
      by (simp add: Let_def updateFromMessage_trace Cons.IH
          split: option.splits sum.splits prod.splits)
  qed
qed

lemma loop_from_empty:
  "handleNewMessage_loop dht s rs w tr =
     (case handleNewMessage_loop dht s rs w [] of (b, w', new) \<Rightarrow> (b, w', tr @ new))"
  using loop_shift [of dht s rs w tr "[]"] by simp

lemma loop_result_Cons:
  "fst (handleNewMessage_loop dht s rs w (a # tr)) = fst (handleNewMessage_loop dht s rs w [])"
  by (subst loop_from_empty) (simp split: prod.splits)

lemma loop_writer_Cons:
  "fst (snd (handleNewMessage_loop dht s rs w (a # tr))) =
     fst (snd (handleNewMessage_loop dht s rs w []))"
  by (subst loop_from_empty) (simp split: prod.splits)

lemma loop_trace_Cons:
  "snd (snd (handleNewMessage_loop dht s rs w (a # tr))) =
     a # tr @ snd (snd (handleNewMessage_loop dht s rs w []))"
  by (subst loop_from_empty) (simp split: prod.splits)

lemma loop_result_any:
  "fst (handleNewMessage_loop dht s rs w tr) = fst (handleNewMessage_loop dht s rs w [])"
  by (cases tr) (simp_all add: loop_result_Cons)

lemma loop_writer_any:
  "fst (snd (handleNewMessage_loop dht s rs w tr)) =
     fst (snd (handleNewMessage_loop dht s rs w []))"
  by (cases tr) (simp_all add: loop_writer_Cons)

lemma loop_trace_any:
  "snd (snd (handleNewMessage_loop dht s rs w tr)) =
     tr @ snd (snd (handleNewMessage_loop dht s rs w []))"
  by (cases tr) (simp_all add: loop_trace_Cons)

text \<open>What the peer store answers changes the trace only.\<close>

lemma loop_peerstore:
  "fst (handleNewMessage_loop (dht\<lparr>SupportsProtocols := sp\<rparr>) s rs w []) =
     fst (handleNewMessage_loop dht s rs w []) \<and>
   fst (snd (handleNewMessage_loop (dht\<lparr>SupportsProtocols := sp\<rparr>) s rs w [])) =
     fst (snd (handleNewMessage_loop dht s rs w []))"
proof (induction rs arbitrary: w)
  case Nil
  then show ?case by simp
next
  case (Cons r rs)
  obtain d rr where r: "r = (d, rr)" by (cases r)
  show ?case
  proof (cases rr)
    case (ReadErr e)
    then show ?thesis using r by (cases e) simp_all
  next
    case (ReadOk req)
    then show ?thesis using r
      by (simp add: Let_def updateFromMessage_trace Cons.IH loop_result_Cons loop_writer_Cons
          split: option.splits sum.splits prod.splits)
  qed
qed

text \<open>Reads the loop has served and left behind do not change what it does next.\<close>

lemma loop_append:
  "handleNewMessage_loop dht s (pre @ rest) w tr =
     (case handleNewMessage_loop dht s pre w tr of
        (None, w1, tr1) \<Rightarrow> handleNewMessage_loop dht s rest w1 tr1
      | (Some b, w1, tr1) \<Rightarrow> (Some b, w1, tr1))"
proof (induction pre arbitrary: w tr)
  case Nil
  then show ?case by simp
next
  case (Cons r rs)
  obtain d rr where r: "r = (d, rr)" by (cases r)
  show ?case
  proof (cases rr)
    case (ReadErr e)
    then show ?thesis using r by (cases e) simp_all
  next
    case (ReadOk req)
    then show ?thesis using r
      by (simp add: Let_def Cons.IH split: option.splits sum.splits prod.splits)
  qed
qed

text \<open>The loop returns true exactly when it has read end-of-input.\<close>

lemma loop_true_iff_empty:
  "fst (handleNewMessage_loop dht s rs w []) = Some True \<longleftrightarrow>
     (\<exists>d. E_ReadMsg d (ReadErr EOF) \<in> set (snd (snd (handleNewMessage_loop dht s rs w []))))"
proof (induction rs arbitrary: w)
  case Nil
  then show ?case by simp
next
  case (Cons r rs)
  obtain d rr where r: "r = (d, rr)" by (cases r)
  show ?case
  proof (cases rr)
    case (ReadErr e)
    then show ?thesis using r by (cases e) auto
  next
    case (ReadOk req)
    then show ?thesis using r
      by (auto simp add: Let_def updateFromMessage_trace Cons.IH
            loop_result_Cons loop_trace_Cons
          split: option.splits sum.splits prod.splits)
  qed
qed

lemma loop_true_iff:
  "fst (handleNewMessage_loop dht s rs w tr) = Some True \<longleftrightarrow>
     (\<exists>d. E_ReadMsg d (ReadErr EOF) \<in>
        set (emitted tr (snd (snd (handleNewMessage_loop dht s rs w tr)))))"
  by (subst loop_result_any, subst loop_trace_any) (simp add: loop_true_iff_empty)

text \<open>Whenever the loop is about to read, nothing is left in the write buffer.\<close>

lemma loop_waiting_writer:
  "handleNewMessage_loop dht s rs w tr = (None, w1, tr1) \<Longrightarrow> Writer w = [] \<Longrightarrow> Writer w1 = []"
proof (induction rs arbitrary: w tr)
  case Nil
  then show ?case by simp
next
  case (Cons r rs)
  obtain d rr where r: "r = (d, rr)" by (cases r)
  show ?case
  proof (cases rr)
    case (ReadErr e)
    then show ?thesis using r Cons.prems by (cases e) simp_all
  next
    case (ReadOk req)
    then show ?thesis using r Cons.prems
      by (auto simp add: Let_def WriteMsg_def Flush_def
          split: option.splits sum.splits prod.splits dest!: Cons.IH)
  qed
qed

lemma loop_read_error:
  assumes "handleNewMessage_loop dht s pre w tr = (None, w1, tr1)"
  shows "handleNewMessage_loop dht s (pre @ (d, ReadErr e) # post) w tr =
     (Some (e = EOF), w1,
      tr1 @ E_ReadMsg d (ReadErr e) #
        (if e = EOF \<or> Error e = ''stream reset'' then [] else [E_Debugf ''error reading message'']))"
  using assms by (cases e) (simp_all add: loop_append)

lemma loop_no_handler:
  assumes "handleNewMessage_loop dht s pre w tr = (None, w1, tr1)"
    and "handlerForMsgType dht (GetType req) = None"
  shows "handleNewMessage_loop dht s (pre @ (d, ReadOk req) # post) w tr =
     (Some False, w1,
      tr1 @ [E_ReadMsg d (ReadOk req), E_receivedMessages req,
             E_Warningf ''can't handle received message''])"
  using assms by (simp add: loop_append)

text \<open>How long the reads blocked changes neither the result nor the writer.\<close>

lemma loop_waits:
  "map snd rs' = map snd rs \<Longrightarrow>
   fst (handleNewMessage_loop dht (s\<lparr>incoming := i\<rparr>) rs' w []) =
     fst (handleNewMessage_loop dht s rs w []) \<and>
   fst (snd (handleNewMessage_loop dht (s\<lparr>incoming := i\<rparr>) rs' w [])) =
     fst (snd (handleNewMessage_loop dht s rs w []))"
proof (induction rs arbitrary: rs' w)
  case Nil
  then show ?case by simp
next
  case (Cons r rs)
  obtain d rr where r: "r = (d, rr)" by (cases r)
  obtain d' rs2 where rs': "rs' = (d', rr) # rs2" and m: "map snd rs2 = map snd rs"
    using Cons.prems r by (cases rs') auto
  show ?case
  proof (cases rr)
    case (ReadErr e)
    then show ?thesis using r rs' by (cases e) simp_all
  next
    case (ReadOk req)
    then show ?thesis using r rs'
      by (simp add: Let_def updateFromMessage_trace Cons.IH [OF m]
            loop_result_Cons loop_writer_Cons WriteMsg_def Flush_def
          split: option.splits sum.splits prod.splits)
  qed
qed

subsection \<open>Peer bookkeeping\<close>

text \<open>
  C9. For every peer and message, \<^verbatim>\<open>updateFromMessage\<close> calls \<^verbatim>\<open>Update\<close> if and
  only if the peer store's \<^verbatim>\<open>SupportsProtocols\<close> query returns no error and a
  non-empty list of protocols.
\<close>

theorem updateFromMessage_Update_iff:
  "E_Update p \<in> set (emitted tr (snd (updateFromMessage dht p mes tr))) \<longleftrightarrow>
     (\<exists>protos. SupportsProtocols dht p = Inr protos \<and> length protos > 0)"
  by (cases "SupportsProtocols dht p") (simp_all add: updateFromMessage_trace)

text \<open>
  C10. \<^verbatim>\<open>updateFromMessage\<close> returns nil for every input. When the peer store's
  query fails, the only effect is the query itself: no \<^verbatim>\<open>Update\<close>. What the peer
  store answers reaches none of the callers: the result of \<^verbatim>\<open>sendRequest\<close>,
  whether the detached goroutine ends, and the result and the written frames of the inbound
  dispatcher are the same under any other peer store \<open>sp\<close>.
\<close>

theorem updateFromMessage_swallows:
  "fst (updateFromMessage dht p mes tr) = None \<and>
   (\<forall>err. SupportsProtocols dht p = Inl err \<longrightarrow>
      snd (updateFromMessage dht p mes tr) = tr @ [E_SupportsProtocols p]) \<and>
   fst (sendRequest (dht\<lparr>SupportsProtocols := sp\<rparr>) start sel q req tr) =
     fst (sendRequest dht start sel q req tr) \<and>
   (detached (dht\<lparr>SupportsProtocols := sp\<rparr>) g l tr = None \<longleftrightarrow> detached dht g l tr = None) \<and>
   fst (handleNewMessage (dht\<lparr>SupportsProtocols := sp\<rparr>) s tr) = fst (handleNewMessage dht s tr) \<and>
   fst (snd (handleNewMessage (dht\<lparr>SupportsProtocols := sp\<rparr>) s tr)) =
     fst (snd (handleNewMessage dht s tr))"
proof -
  have a: "fst (updateFromMessage dht p mes tr) = None"
    by (simp add: updateFromMessage_def Let_def split: sum.splits)
  have b: "\<forall>err. SupportsProtocols dht p = Inl err \<longrightarrow>
      snd (updateFromMessage dht p mes tr) = tr @ [E_SupportsProtocols p]"
    by (simp add: updateFromMessage_trace)
  have c: "fst (sendRequest (dht\<lparr>SupportsProtocols := sp\<rparr>) start sel q req tr) =
     fst (sendRequest dht start sel q req tr)"
    by (simp add: sendRequest_def getStream_def Let_def split: option.splits sum.splits select_outcome.splits)
  have d: "detached (dht\<lparr>SupportsProtocols := sp\<rparr>) g l tr = None \<longleftrightarrow> detached dht g l tr = None"
    by (cases g; cases l) simp_all
  have e: "fst (handleNewMessage (dht\<lparr>SupportsProtocols := sp\<rparr>) s tr) = fst (handleNewMessage dht s tr)"
    unfolding handleNewMessage_def
    by (subst loop_result_any, subst (2) loop_result_any) (simp add: loop_peerstore)
  have f: "fst (snd (handleNewMessage (dht\<lparr>SupportsProtocols := sp\<rparr>) s tr)) =
     fst (snd (handleNewMessage dht s tr))"
    unfolding handleNewMessage_def
    by (subst loop_writer_any, subst (2) loop_writer_any) (simp add: loop_peerstore)
  from a b c d e f show ?thesis by blast
qed

theorem updateFromMessage_swallows_witness:
  "SupportsProtocols (ex_dht\<lparr>SupportsProtocols := ex_failing_store\<rparr>) ''QmA'' =
     Inl (Err ''peerstore unavailable'') \<and>
   updateFromMessage (ex_dht\<lparr>SupportsProtocols := ex_failing_store\<rparr>) ''QmA'' ex_reply [] =
     (None, [E_SupportsProtocols ''QmA'']) \<and>
   fst (sendRequest (ex_dht\<lparr>SupportsProtocols := ex_failing_store\<rparr>) 100 (Reply ex_reply 130)
          ''QmA'' ex_req []) =
     Some (Some ex_reply, None)"
proof -
  have h: "SupportsProtocols (ex_dht\<lparr>SupportsProtocols := ex_failing_store\<rparr>) ''QmA'' =
     Inl (Err ''peerstore unavailable'')"
    by (simp add: ex_failing_store_def)
  have r: "fst (sendRequest (ex_dht\<lparr>SupportsProtocols := ex_failing_store\<rparr>) 100
          (Reply ex_reply 130) ''QmA'' ex_req []) = Some (Some ex_reply, None)"
    by (simp add: run_defs ex_dht_def)
  from updateFromMessage_swallows
    [of "ex_dht\<lparr>SupportsProtocols := ex_failing_store\<rparr>" "''QmA''" ex_reply "[]"
        ex_failing_store 100 "Reply ex_reply 130" "''QmA''" ex_req]
  show ?thesis using h r
    by (simp add: prod_eq_iff)
qed

subsection \<open>The client path\<close>

text \<open>
  C1. When \<^verbatim>\<open>sendRequest\<close> got a session, the request was written and the reply
  arrives before the context is done: the call returns the reply with a nil error and
  leaves no goroutine behind; after the request it puts the session back into the pool,
  then updates the peer bookkeeping from the reply, then records the round-trip latency.
  The session is put back exactly once, no other session is, and nothing is reset.
\<close>

theorem sendRequest_reply:
  assumes "getStream dht p (recordOutboundMessage req tr) = (Inr ps, tr2)"
    and "stream_request dht ps req = None"
  shows "\<exists>tr'. sendRequest dht start (Reply reply now) p req tr =
             (Some (Some reply, None), tr', None) \<and>
     tr' = snd (updateFromMessage dht p reply
              (tr2 @ [E_messageWriteLatency req, E_request ps req, E_streamPool_put ps p])) @
           [E_RecordLatency p (now - start)] \<and>
     count_list (emitted tr tr') (E_streamPool_put ps p) = 1 \<and>
     (\<forall>ps' q. E_streamPool_put ps' q \<in> set (emitted tr tr') \<longrightarrow> ps' = ps \<and> q = p) \<and>
     (\<forall>ps'. E_reset ps' \<notin> set (emitted tr tr')) \<and>
     E_SupportsProtocols p \<in> set (emitted tr tr') \<and>
     (E_Update p \<in> set (emitted tr tr') \<longleftrightarrow>
        (\<exists>protos. SupportsProtocols dht p = Inr protos \<and> length protos > 0)) \<and>
     E_RecordLatency p (now - start) \<in> set (emitted tr tr')"
proof -
  have tr2: "tr2 = tr @ E_sentMessages req # E_streamPool_get p #
      (case streamPool_get dht p of Some ps \<Rightarrow> [] | None \<Rightarrow> [E_newStream p])"
    using getStream_trace [of dht p "recordOutboundMessage req tr"] assms(1)
    by (simp add: recordOutboundMessage_def)
  have run: "sendRequest dht start (Reply reply now) p req tr =
      (Some (Some reply, None),
       onReply dht ps p start reply now (tr2 @ [E_messageWriteLatency req, E_request ps req]),
       None)"
    using assms by (simp add: sendRequest_def beginMessageWriteLatency_def)
  show ?thesis
    unfolding run
    by (cases "SupportsProtocols dht p"; cases "streamPool_get dht p")
       (auto simp add: onReply_trace updateFromMessage_trace tr2)
qed

theorem sendRequest_reply_witness:
  "getStream ex_dht ''QmA'' (recordOutboundMessage ex_req []) =
     (Inr 1, [E_sentMessages ex_req, E_streamPool_get ''QmA'']) \<and>
   stream_request ex_dht 1 ex_req = None \<and>
   fst (sendRequest ex_dht 100 (Reply ex_reply 130) ''QmA'' ex_req []) =
     Some (Some ex_reply, None) \<and>
   count_list (fst (snd (sendRequest ex_dht 100 (Reply ex_reply 130) ''QmA'' ex_req [])))
     (E_streamPool_put 1 ''QmA'') = 1"
proof -
  have h1: "getStream ex_dht ''QmA'' (recordOutboundMessage ex_req []) =
      (Inr 1, [E_sentMessages ex_req, E_streamPool_get ''QmA''])"
    by (simp add: getStream_def ex_dht_def recordOutboundMessage_def)
  have h2: "stream_request ex_dht 1 ex_req = None"
    by (simp add: ex_dht_def)
  from sendRequest_reply [OF h1 h2, of 100 ex_reply 130]
  show ?thesis using h1 h2 by (auto simp add: emitted_def)
qed

text \<open>
  C2. When \<^verbatim>\<open>sendRequest\<close> got a session, the request was written and the context
  is done before a reply arrives: the call returns the context's error at once, with the
  goroutine it spawned; nothing was reset and nothing was put into the pool. The goroutine
  keeps waiting while the channel yields nothing, ends without effect when the channel is
  closed, and on a late reply does what a timely reply does: the events it adds are those
  \<^verbatim>\<open>sendRequest\<close> adds after the request when the reply case fires (one pool put of
  the session, the peer bookkeeping, the latency).
\<close>

theorem sendRequest_cancelled:
  assumes "getStream dht p (recordOutboundMessage req tr) = (Inr ps, tr2)"
    and "stream_request dht ps req = None"
  shows "sendRequest dht start (Done cerr) p req tr =
       (Some (None, Some cerr),
        tr2 @ [E_messageWriteLatency req, E_request ps req, E_go ps],
        Some (Goroutine ps p start)) \<and>
     (\<forall>ps'. E_reset ps' \<notin>
        set (emitted tr (tr2 @ [E_messageWriteLatency req, E_request ps req, E_go ps]))) \<and>
     (\<forall>ps' q. E_streamPool_put ps' q \<notin>
        set (emitted tr (tr2 @ [E_messageWriteLatency req, E_request ps req, E_go ps]))) \<and>
     detached dht (Goroutine ps p start) Never tr1 = None \<and>
     detached dht (Goroutine ps p start) LateClosed tr1 = Some tr1 \<and>
     (\<exists>tr1'. detached dht (Goroutine ps p start) (LateReply reply now) tr1 = Some tr1' \<and>
        emitted tr1 tr1' =
          emitted (tr2 @ [E_messageWriteLatency req, E_request ps req])
            (fst (snd (sendRequest dht start (Reply reply now) p req tr))) \<and>
        count_list (emitted tr1 tr1') (E_streamPool_put ps p) = 1 \<and>
        E_SupportsProtocols p \<in> set (emitted tr1 tr1') \<and>
        E_RecordLatency p (now - start) \<in> set (emitted tr1 tr1'))"
proof -
  note tr2 = acquired_trace [OF assms(1)]
  have run: "sendRequest dht start (Done cerr) p req tr =
       (Some (None, Some cerr),
        tr2 @ [E_messageWriteLatency req, E_request ps req, E_go ps],
        Some (Goroutine ps p start))"
    using assms by (simp add: sendRequest_def beginMessageWriteLatency_def)
  have timely: "fst (snd (sendRequest dht start (Reply reply now) p req tr)) =
       onReply dht ps p start reply now (tr2 @ [E_messageWriteLatency req, E_request ps req])"
    using assms by (simp add: sendRequest_def beginMessageWriteLatency_def)
  have quiet: "(\<forall>ps'. E_reset ps' \<notin>
        set (emitted tr (tr2 @ [E_messageWriteLatency req, E_request ps req, E_go ps]))) \<and>
     (\<forall>ps' q. E_streamPool_put ps' q \<notin>
        set (emitted tr (tr2 @ [E_messageWriteLatency req, E_request ps req, E_go ps])))"
    by (cases "streamPool_get dht p") (auto simp add: tr2)
  have late: "emitted tr1 (onReply dht ps p start reply now tr1) =
      emitted (tr2 @ [E_messageWriteLatency req, E_request ps req])
        (onReply dht ps p start reply now (tr2 @ [E_messageWriteLatency req, E_request ps req]))"
    by (simp only: onReply_trace [of dht ps p start reply now] emitted_append)
  have cnt: "count_list (emitted tr1 (onReply dht ps p start reply now tr1)) (E_streamPool_put ps p) = 1 \<and>
        E_SupportsProtocols p \<in> set (emitted tr1 (onReply dht ps p start reply now tr1)) \<and>
        E_RecordLatency p (now - start) \<in> set (emitted tr1 (onReply dht ps p start reply now tr1))"
    by (cases "SupportsProtocols dht p") (simp_all add: onReply_trace)
  show ?thesis
    using run quiet late cnt by (simp add: timely)
qed

theorem sendRequest_cancelled_witness:
  "getStream ex_dht ''QmA'' (recordOutboundMessage ex_req []) =
     (Inr 1, [E_sentMessages ex_req, E_streamPool_get ''QmA'']) \<and>
   stream_request ex_dht 1 ex_req = None \<and>
   sendRequest ex_dht 100 (Done (Err ''context canceled'')) ''QmA'' ex_req [] =
     (Some (None, Some (Err ''context canceled'')),
      [E_sentMessages ex_req, E_streamPool_get ''QmA'', E_messageWriteLatency ex_req,
       E_request 1 ex_req, E_go 1],
      Some (Goroutine 1 ''QmA'' 100)) \<and>
   detached ex_dht (Goroutine 1 ''QmA'' 100) (LateReply ex_reply 900) [] =
     Some [E_streamPool_put 1 ''QmA'', E_SupportsProtocols ''QmA'', E_Update ''QmA'',
           E_RecordLatency ''QmA'' 800]"
proof -
  have h1: "getStream ex_dht ''QmA'' (recordOutboundMessage ex_req []) =
      (Inr 1, [E_sentMessages ex_req, E_streamPool_get ''QmA''])"
    by (simp add: getStream_def ex_dht_def recordOutboundMessage_def)
  have h2: "stream_request ex_dht 1 ex_req = None"
    by (simp add: ex_dht_def)
  have late: "detached ex_dht (Goroutine 1 ''QmA'' 100) (LateReply ex_reply 900) [] =
     Some [E_streamPool_put 1 ''QmA'', E_SupportsProtocols ''QmA'', E_Update ''QmA'',
           E_RecordLatency ''QmA'' 800]"
    by (simp add: onReply_def updateFromMessage_def ex_dht_def)
  from sendRequest_cancelled [OF h1 h2, of 100 "Err ''context canceled''" "[]" ex_reply 900]
  show ?thesis using h1 h2 late by simp
qed



text \<open>
  C8. When \<^verbatim>\<open>sendMessage\<close> got a session: if the session's \<^verbatim>\<open>send\<close>
  succeeds, the session is put back into the pool and nil is returned; if it fails, the
  session is reset, nothing is put into the pool and that error is returned. In both cases
  no request is issued on the session, so no reply is awaited.
\<close>

theorem sendMessage_outcome:
  assumes "getStream dht p (recordOutboundMessage pmes tr) = (Inr ps, tr2)"
  shows "(stream_send dht ps pmes = None \<longrightarrow>
        sendMessage dht p pmes tr =
          (None, tr2 @ [E_messageWriteLatency pmes, E_send ps pmes, E_streamPool_put ps p])) \<and>
     (\<forall>err. stream_send dht ps pmes = Some err \<longrightarrow>
        sendMessage dht p pmes tr =
          (Some err, tr2 @ [E_messageWriteLatency pmes, E_send ps pmes, E_reset ps]) \<and>
        (\<forall>ps' q. E_streamPool_put ps' q \<notin> set (emitted tr (snd (sendMessage dht p pmes tr))))) \<and>
     (\<forall>ps' m. E_request ps' m \<notin> set (emitted tr (snd (sendMessage dht p pmes tr))))"
proof -
  note tr2 = acquired_trace [OF assms(1)]
  show ?thesis using assms
    by (cases "streamPool_get dht p"; cases "stream_send dht ps pmes")
       (auto simp add: sendMessage_def beginMessageWriteLatency_def tr2)
qed

theorem sendMessage_outcome_witness:
  "getStream ex_dht ''QmA'' (recordOutboundMessage ex_add []) =
     (Inr 1, [E_sentMessages ex_add, E_streamPool_get ''QmA'']) \<and>
   stream_send ex_dht 1 ex_add = None \<and>
   sendMessage ex_dht ''QmA'' ex_add [] =
     (None, [E_sentMessages ex_add, E_streamPool_get ''QmA'', E_messageWriteLatency ex_add,
             E_send 1 ex_add, E_streamPool_put 1 ''QmA'']) \<and>
   getStream ex_dht ''QmB'' (recordOutboundMessage ex_add []) =
     (Inr 2, [E_sentMessages ex_add, E_streamPool_get ''QmB'', E_newStream ''QmB'']) \<and>
   stream_send ex_dht 2 ex_add = Some (Err ''write failed'') \<and>
   sendMessage ex_dht ''QmB'' ex_add [] =
     (Some (Err ''write failed''),
      [E_sentMessages ex_add, E_streamPool_get ''QmB'', E_newStream ''QmB'',
       E_messageWriteLatency ex_add, E_send 2 ex_add, E_reset 2])"
proof -
  have a1: "getStream ex_dht ''QmA'' (recordOutboundMessage ex_add []) =
      (Inr 1, [E_sentMessages ex_add, E_streamPool_get ''QmA''])"
    by (simp add: getStream_def ex_dht_def recordOutboundMessage_def)
  have a2: "stream_send ex_dht 1 ex_add = None"
    by (simp add: ex_dht_def)
  have b1: "getStream ex_dht ''QmB'' (recordOutboundMessage ex_add []) =
      (Inr 2, [E_sentMessages ex_add, E_streamPool_get ''QmB'', E_newStream ''QmB''])"
    by (simp add: getStream_def ex_dht_def recordOutboundMessage_def)
  have b2: "stream_send ex_dht 2 ex_add = Some (Err ''write failed'')"
    by (simp add: ex_dht_def)
  from sendMessage_outcome [OF a1] sendMessage_outcome [OF b1]
  show ?thesis using a1 a2 b1 b2 by simp
qed

subsection \<open>The server path\<close>

text \<open>
  C4. An inbound stream delivers request A, whose handler succeeds without a response, then
  request B, whose handler succeeds with the response \<open>resp\<close>, then end-of-input, and
  takes the response frame. Then the dispatcher loop returns true; the one frame written and
  flushed is \<open>resp\<close> (one \<^verbatim>\<open>WriteMsg\<close> and one \<^verbatim>\<open>Flush\<close>, after B's
  bookkeeping); \<^verbatim>\<open>updateFromMessage\<close> ran for both requests; and
  \<^verbatim>\<open>handleNewStream\<close> closes the stream for writes.
\<close>

theorem handleNewMessage_two_requests:
  assumes "incoming s = [(dA, ReadOk A), (dB, ReadOk B), (dE, ReadErr EOF)]"
    and "handlerForMsgType dht (GetType A) = Some hA"
    and "hA (RemotePeer s) A = Inr None"
    and "handlerForMsgType dht (GetType B) = Some hB"
    and "hB (RemotePeer s) B = Inr (Some resp)"
    and "write_fails s [] resp = None"
    and "flush_fails s [] [resp] = None"
  shows "\<exists>tr'. handleNewMessage dht s tr = (Some True, \<lparr>Writer = [], flushed = [resp]\<rparr>, tr') \<and>
     tr' = tr @ [E_ReadMsg dA (ReadOk A), E_receivedMessages A,
                 E_handler (GetType A) (RemotePeer s) A] @
             snd (updateFromMessage dht (RemotePeer s) A []) @
             [E_ReadMsg dB (ReadOk B), E_receivedMessages B,
              E_handler (GetType B) (RemotePeer s) B] @
             snd (updateFromMessage dht (RemotePeer s) B []) @
             [E_WriteMsg resp None, E_Flush None, E_inboundRequestHandlingTime B,
              E_ReadMsg dE (ReadErr EOF)] \<and>
     filter is_write (emitted tr tr') = [E_WriteMsg resp None, E_Flush None] \<and>
     count_list (emitted tr tr') (E_SupportsProtocols (RemotePeer s)) = 2 \<and>
     handleNewStream dht s tr =
       Some (\<lparr>Writer = [], flushed = [resp]\<rparr>, tr' @ [E_Close, E_Reset])"
proof -
  have run: "handleNewMessage dht s tr = (Some True, \<lparr>Writer = [], flushed = [resp]\<rparr>,
      tr @ [E_ReadMsg dA (ReadOk A), E_receivedMessages A,
                 E_handler (GetType A) (RemotePeer s) A] @
             snd (updateFromMessage dht (RemotePeer s) A []) @
             [E_ReadMsg dB (ReadOk B), E_receivedMessages B,
              E_handler (GetType B) (RemotePeer s) B] @
             snd (updateFromMessage dht (RemotePeer s) B []) @
             [E_WriteMsg resp None, E_Flush None, E_inboundRequestHandlingTime B,
              E_ReadMsg dE (ReadErr EOF)])"
    using assms
    by (simp add: handleNewMessage_def newBufferedDelimitedWriter_def Let_def
          WriteMsg_def Flush_def updateFromMessage_trace)
  show ?thesis
    unfolding handleNewStream_def run
    by (cases "SupportsProtocols dht (RemotePeer s)") (simp_all add: updateFromMessage_trace)
qed

theorem handleNewMessage_two_requests_witness:
  "incoming (ex_stream [(0, ReadOk ex_add), (3, ReadOk ex_req), (9, ReadErr EOF)]) =
     [(0, ReadOk ex_add), (3, ReadOk ex_req), (9, ReadErr EOF)] \<and>
   handlerForMsgType ex_dht (GetType ex_add) = Some (\<lambda>p m. Inr None) \<and>
   handlerForMsgType ex_dht (GetType ex_req) = Some (\<lambda>p m. Inr (Some ex_reply)) \<and>
   write_fails (ex_stream [(0, ReadOk ex_add), (3, ReadOk ex_req), (9, ReadErr EOF)]) []
     ex_reply = None \<and>
   flush_fails (ex_stream [(0, ReadOk ex_add), (3, ReadOk ex_req), (9, ReadErr EOF)]) []
     [ex_reply] = None \<and>
   handleNewStream ex_dht (ex_stream [(0, ReadOk ex_add), (3, ReadOk ex_req), (9, ReadErr EOF)]) [] =
     Some (\<lparr>Writer = [], flushed = [ex_reply]\<rparr>,
       [E_ReadMsg 0 (ReadOk ex_add), E_receivedMessages ex_add, E_handler 2 ''QmA'' ex_add,
        E_SupportsProtocols ''QmA'', E_Update ''QmA'',
        E_ReadMsg 3 (ReadOk ex_req), E_receivedMessages ex_req, E_handler 4 ''QmA'' ex_req,
        E_SupportsProtocols ''QmA'', E_Update ''QmA'',
        E_WriteMsg ex_reply None, E_Flush None, E_inboundRequestHandlingTime ex_req,
        E_ReadMsg 9 (ReadErr EOF), E_Close, E_Reset])"
proof -
  let ?s = "ex_stream [(0, ReadOk ex_add), (3, ReadOk ex_req), (9, ReadErr EOF)]"
  have h1: "incoming ?s = [(0, ReadOk ex_add), (3, ReadOk ex_req), (9, ReadErr EOF)]"
    by (simp add: ex_stream_def)
  have h2: "handlerForMsgType ex_dht (GetType ex_add) = Some (\<lambda>p m. Inr None)"
    by (simp add: ex_dht_def ex_add_def)
  have h3: "(\<lambda>p m. Inr None) (RemotePeer ?s) ex_add = (Inr None :: error + pb_Message option)"
    by simp
  have h4: "handlerForMsgType ex_dht (GetType ex_req) = Some (\<lambda>p m. Inr (Some ex_reply))"
    by (simp add: ex_dht_def ex_req_def)
  have h5: "(\<lambda>p m. Inr (Some ex_reply)) (RemotePeer ?s) ex_req =
      (Inr (Some ex_reply) :: error + pb_Message option)"
    by simp
  have h6: "write_fails ?s [] ex_reply = None"
    by (simp add: ex_stream_def)
  have h7: "flush_fails ?s [] [ex_reply] = None"
    by (simp add: ex_stream_def)
  have p: "RemotePeer ?s = ''QmA''" "SupportsProtocols ex_dht ''QmA'' = Inr [''/ipfs/kad/1.0.0'']"
    "GetType ex_add = 2" "GetType ex_req = 4"
    by (simp_all add: ex_stream_def ex_dht_def ex_add_def ex_req_def)
  from handleNewMessage_two_requests [OF h1 h2 h3 h4 h5 h6 h7, of "[]"]
  show ?thesis using h1 h2 h4 h6 h7 by (simp add: updateFromMessage_trace p)
qed

text \<open>
  C5. For every inbound stream the dispatcher loop returns true exactly when one of its reads
  yielded \<^verbatim>\<open>io.EOF\<close>. After true \<^verbatim>\<open>handleNewStream\<close> closes the stream for
  writes (and then runs the deferred reset); after false it only resets it. Whenever the loop,
  having served the reads \<open>pre\<close>, reads an error \<open>e\<close>, it returns at once: true if
  \<open>e\<close> is \<^verbatim>\<open>io.EOF\<close>, false otherwise, with the writer as it was before the read,
  so nothing is written for the failed read.
\<close>

theorem handleNewMessage_read_end:
  "(fst (handleNewMessage dht s tr) = Some True \<longleftrightarrow>
      (\<exists>d. E_ReadMsg d (ReadErr EOF) \<in>
         set (emitted tr (snd (snd (handleNewMessage dht s tr)))))) \<and>
   (\<forall>w tr1. handleNewMessage dht s tr = (Some True, w, tr1) \<longrightarrow>
      handleNewStream dht s tr = Some (w, tr1 @ [E_Close, E_Reset])) \<and>
   (\<forall>w tr1. handleNewMessage dht s tr = (Some False, w, tr1) \<longrightarrow>
      handleNewStream dht s tr = Some (w, tr1 @ [E_Reset])) \<and>
   (\<forall>pre d e post w1 tr1.
      incoming s = pre @ (d, ReadErr e) # post \<and>
      handleNewMessage_loop dht s pre newBufferedDelimitedWriter tr = (None, w1, tr1) \<longrightarrow>
      handleNewMessage dht s tr =
        (Some (e = EOF), w1,
         tr1 @ E_ReadMsg d (ReadErr e) #
           (if e = EOF \<or> Error e = ''stream reset'' then []
            else [E_Debugf ''error reading message''])))"
proof -
  have a: "fst (handleNewMessage dht s tr) = Some True \<longleftrightarrow>
      (\<exists>d. E_ReadMsg d (ReadErr EOF) \<in>
         set (emitted tr (snd (snd (handleNewMessage dht s tr)))))"
    unfolding handleNewMessage_def by (rule loop_true_iff)
  have b: "\<forall>w tr1. handleNewMessage dht s tr = (Some True, w, tr1) \<longrightarrow>
      handleNewStream dht s tr = Some (w, tr1 @ [E_Close, E_Reset])"
    by (simp add: handleNewStream_def)
  have c: "\<forall>w tr1. handleNewMessage dht s tr = (Some False, w, tr1) \<longrightarrow>
      handleNewStream dht s tr = Some (w, tr1 @ [E_Reset])"
    by (simp add: handleNewStream_def)
  have d: "\<forall>pre d e post w1 tr1.
      incoming s = pre @ (d, ReadErr e) # post \<and>
      handleNewMessage_loop dht s pre newBufferedDelimitedWriter tr = (None, w1, tr1) \<longrightarrow>
      handleNewMessage dht s tr =
        (Some (e = EOF), w1,
         tr1 @ E_ReadMsg d (ReadErr e) #
           (if e = EOF \<or> Error e = ''stream reset'' then []
            else [E_Debugf ''error reading message'']))"
    unfolding handleNewMessage_def using loop_read_error by simp
  from a b c d show ?thesis by blast
qed

theorem handleNewMessage_read_end_witness:
  "handleNewMessage_loop ex_dht
     (ex_stream [(0, ReadOk ex_add), (7, ReadErr (Err ''stream reset''))])
     [(0, ReadOk ex_add)] newBufferedDelimitedWriter [] =
     (None, \<lparr>Writer = [], flushed = []\<rparr>,
      [E_ReadMsg 0 (ReadOk ex_add), E_receivedMessages ex_add, E_handler 2 ''QmA'' ex_add,
       E_SupportsProtocols ''QmA'', E_Update ''QmA'']) \<and>
   handleNewMessage ex_dht (ex_stream [(0, ReadOk ex_add), (7, ReadErr (Err ''stream reset''))]) [] =
     (Some False, \<lparr>Writer = [], flushed = []\<rparr>,
      [E_ReadMsg 0 (ReadOk ex_add), E_receivedMessages ex_add, E_handler 2 ''QmA'' ex_add,
       E_SupportsProtocols ''QmA'', E_Update ''QmA'',
       E_ReadMsg 7 (ReadErr (Err ''stream reset''))]) \<and>
   handleNewStream ex_dht (ex_stream [(0, ReadOk ex_add), (7, ReadErr (Err ''stream reset''))]) [] =
     Some (\<lparr>Writer = [], flushed = []\<rparr>,
      [E_ReadMsg 0 (ReadOk ex_add), E_receivedMessages ex_add, E_handler 2 ''QmA'' ex_add,
       E_SupportsProtocols ''QmA'', E_Update ''QmA'',
       E_ReadMsg 7 (ReadErr (Err ''stream reset'')), E_Reset]) \<and>
   handleNewMessage ex_dht (ex_stream [(5, ReadErr EOF)]) [] =
     (Some True, \<lparr>Writer = [], flushed = []\<rparr>, [E_ReadMsg 5 (ReadErr EOF)]) \<and>
   handleNewStream ex_dht (ex_stream [(5, ReadErr EOF)]) [] =
     Some (\<lparr>Writer = [], flushed = []\<rparr>, [E_ReadMsg 5 (ReadErr EOF), E_Close, E_Reset])"
proof -
  let ?s = "ex_stream [(0, ReadOk ex_add), (7, ReadErr (Err ''stream reset''))]"
  let ?t = "ex_stream [(5, ReadErr EOF)]"
  have i: "incoming ?s = [(0, ReadOk ex_add)] @ (7, ReadErr (Err ''stream reset'')) # []"
    by (simp add: ex_stream_def)
  have h: "handleNewMessage_loop ex_dht ?s [(0, ReadOk ex_add)] newBufferedDelimitedWriter [] =
     (None, \<lparr>Writer = [], flushed = []\<rparr>,
      [E_ReadMsg 0 (ReadOk ex_add), E_receivedMessages ex_add, E_handler 2 ''QmA'' ex_add,
       E_SupportsProtocols ''QmA'', E_Update ''QmA''])"
    by (simp add: run_defs ex_defs)
  have j: "incoming ?t = [] @ (5, ReadErr EOF) # []"
    by (simp add: ex_stream_def)
  have k: "handleNewMessage_loop ex_dht ?t [] newBufferedDelimitedWriter [] =
     (None, \<lparr>Writer = [], flushed = []\<rparr>, [])"
    by (simp add: newBufferedDelimitedWriter_def)
  note s_end = handleNewMessage_read_end [of ex_dht ?s "[]"]
  note t_end = handleNewMessage_read_end [of ex_dht ?t "[]"]
  have a: "handleNewMessage ex_dht ?s [] =
     (Some False, \<lparr>Writer = [], flushed = []\<rparr>,
      [E_ReadMsg 0 (ReadOk ex_add), E_receivedMessages ex_add, E_handler 2 ''QmA'' ex_add,
       E_SupportsProtocols ''QmA'', E_Update ''QmA'',
       E_ReadMsg 7 (ReadErr (Err ''stream reset''))])"
    using s_end [THEN conjunct2, THEN conjunct2, THEN conjunct2, rule_format, OF conjI [OF i h]]
    by simp
  have a': "handleNewStream ex_dht ?s [] =
     Some (\<lparr>Writer = [], flushed = []\<rparr>,
      [E_ReadMsg 0 (ReadOk ex_add), E_receivedMessages ex_add, E_handler 2 ''QmA'' ex_add,
       E_SupportsProtocols ''QmA'', E_Update ''QmA'',
       E_ReadMsg 7 (ReadErr (Err ''stream reset'')), E_Reset])"
    using s_end [THEN conjunct2, THEN conjunct2, THEN conjunct1, rule_format, OF a]
    by simp
  have b: "handleNewMessage ex_dht ?t [] =
     (Some True, \<lparr>Writer = [], flushed = []\<rparr>, [E_ReadMsg 5 (ReadErr EOF)])"
    using t_end [THEN conjunct2, THEN conjunct2, THEN conjunct2, rule_format, OF conjI [OF j k]]
    by simp
  have b': "handleNewStream ex_dht ?t [] =
     Some (\<lparr>Writer = [], flushed = []\<rparr>, [E_ReadMsg 5 (ReadErr EOF), E_Close, E_Reset])"
    using t_end [THEN conjunct2, THEN conjunct1, rule_format, OF b]
    by simp
  from h a a' b b' show ?thesis by simp
qed

text \<open>
  C6. When the loop, having served the reads \<open>pre\<close>, reads a request whose type tag has
  no registered handler, it returns false right after the read and the received-message
  metrics: no handler runs, no peer bookkeeping is done, nothing is written, and the writer is
  as it was before the read, with the earlier responses flushed and nothing left in the buffer.
  \<^verbatim>\<open>handleNewStream\<close> then resets the stream without closing it.
\<close>

theorem handleNewMessage_no_handler:
  assumes "incoming s = pre @ (d, ReadOk req) # post"
    and "handleNewMessage_loop dht s pre newBufferedDelimitedWriter tr = (None, w1, tr1)"
    and "handlerForMsgType dht (GetType req) = None"
  shows "handleNewMessage dht s tr =
       (Some False, w1,
        tr1 @ [E_ReadMsg d (ReadOk req), E_receivedMessages req,
               E_Warningf ''can't handle received message'']) \<and>
     handleNewStream dht s tr =
       Some (w1,
        tr1 @ [E_ReadMsg d (ReadOk req), E_receivedMessages req,
               E_Warningf ''can't handle received message'', E_Reset]) \<and>
     Writer w1 = []"
proof -
  have run: "handleNewMessage dht s tr =
       (Some False, w1,
        tr1 @ [E_ReadMsg d (ReadOk req), E_receivedMessages req,
               E_Warningf ''can't handle received message''])"
    unfolding handleNewMessage_def assms(1) by (rule loop_no_handler [OF assms(2,3)])
  have "Writer w1 = []"
    using loop_waiting_writer [OF assms(2)] by (simp add: newBufferedDelimitedWriter_def)
  then show ?thesis
    unfolding handleNewStream_def run by simp
qed

theorem handleNewMessage_no_handler_witness:
  "incoming (ex_stream [(0, ReadOk ex_req), (4, ReadOk ex_unknown), (1, ReadOk ex_req)]) =
     [(0, ReadOk ex_req)] @ (4, ReadOk ex_unknown) # [(1, ReadOk ex_req)] \<and>
   handleNewMessage_loop ex_dht
     (ex_stream [(0, ReadOk ex_req), (4, ReadOk ex_unknown), (1, ReadOk ex_req)])
     [(0, ReadOk ex_req)] newBufferedDelimitedWriter [] =
     (None, \<lparr>Writer = [], flushed = [ex_reply]\<rparr>,
      [E_ReadMsg 0 (ReadOk ex_req), E_receivedMessages ex_req, E_handler 4 ''QmA'' ex_req,
       E_SupportsProtocols ''QmA'', E_Update ''QmA'', E_WriteMsg ex_reply None, E_Flush None,
       E_inboundRequestHandlingTime ex_req]) \<and>
   handlerForMsgType ex_dht (GetType ex_unknown) = None \<and>
   handleNewStream ex_dht
     (ex_stream [(0, ReadOk ex_req), (4, ReadOk ex_unknown), (1, ReadOk ex_req)]) [] =
     Some (\<lparr>Writer = [], flushed = [ex_reply]\<rparr>,
      [E_ReadMsg 0 (ReadOk ex_req), E_receivedMessages ex_req, E_handler 4 ''QmA'' ex_req,
       E_SupportsProtocols ''QmA'', E_Update ''QmA'', E_WriteMsg ex_reply None, E_Flush None,
       E_inboundRequestHandlingTime ex_req,
       E_ReadMsg 4 (ReadOk ex_unknown), E_receivedMessages ex_unknown,
       E_Warningf ''can't handle received message'', E_Reset])"
proof -
  let ?s = "ex_stream [(0, ReadOk ex_req), (4, ReadOk ex_unknown), (1, ReadOk ex_req)]"
  have i: "incoming ?s = [(0, ReadOk ex_req)] @ (4, ReadOk ex_unknown) # [(1, ReadOk ex_req)]"
    by (simp add: ex_stream_def)
  have h: "handleNewMessage_loop ex_dht ?s [(0, ReadOk ex_req)] newBufferedDelimitedWriter [] =
     (None, \<lparr>Writer = [], flushed = [ex_reply]\<rparr>,
      [E_ReadMsg 0 (ReadOk ex_req), E_receivedMessages ex_req, E_handler 4 ''QmA'' ex_req,
       E_SupportsProtocols ''QmA'', E_Update ''QmA'', E_WriteMsg ex_reply None, E_Flush None,
       E_inboundRequestHandlingTime ex_req])"
    by (simp add: run_defs ex_defs)
  have n: "handlerForMsgType ex_dht (GetType ex_unknown) = None"
    by (simp add: ex_dht_def ex_unknown_def)
  from handleNewMessage_no_handler [OF i h n]
  show ?thesis using i h n by simp
qed

text \<open>
  C7, as the claim states it, fails: \<^verbatim>\<open>dhtReadMessageTimeout\<close> is not used by the
  dispatcher. A request that arrives after two minutes of idle waiting is read without error,
  served and answered, and the stream ends cleanly.
\<close>

theorem handleNewMessage_idle_counterexample:
  "dhtReadMessageTimeout < 120000000000 \<and>
   handleNewStream ex_dht
     (ex_stream [(120000000000, ReadOk ex_req), (0, ReadErr EOF)]) [] =
     Some (\<lparr>Writer = [], flushed = [ex_reply]\<rparr>,
      [E_ReadMsg 120000000000 (ReadOk ex_req), E_receivedMessages ex_req,
       E_handler 4 ''QmA'' ex_req, E_SupportsProtocols ''QmA'', E_Update ''QmA'',
       E_WriteMsg ex_reply None, E_Flush None, E_inboundRequestHandlingTime ex_req,
       E_ReadMsg 0 (ReadErr EOF), E_Close, E_Reset])"
  by (simp add: run_defs ex_defs dhtReadMessageTimeout_def)

text \<open>
  C7, amended. The dispatcher sets no deadline on its reads: how long the reads block changes
  neither the loop's result nor the frames written, so a request that arrives after more than
  \<^verbatim>\<open>dhtReadMessageTimeout\<close> is served like any other. A read that does fail with
  \<^verbatim>\<open>ErrReadTimeout\<close> is an abnormal read error: the loop returns false and the
  stream is reset, not closed.
\<close>

theorem handleNewMessage_no_deadline:
  "(\<forall>rs'. map snd rs' = map snd (incoming s) \<longrightarrow>
      fst (handleNewMessage dht (s\<lparr>incoming := rs'\<rparr>) tr) = fst (handleNewMessage dht s tr) \<and>
      fst (snd (handleNewMessage dht (s\<lparr>incoming := rs'\<rparr>) tr)) =
        fst (snd (handleNewMessage dht s tr))) \<and>
   (\<forall>pre d post w1 tr1.
      incoming s = pre @ (d, ReadErr ErrReadTimeout) # post \<and>
      handleNewMessage_loop dht s pre newBufferedDelimitedWriter tr = (None, w1, tr1) \<longrightarrow>
      handleNewMessage dht s tr =
        (Some False, w1,
         tr1 @ [E_ReadMsg d (ReadErr ErrReadTimeout), E_Debugf ''error reading message'']) \<and>
      handleNewStream dht s tr =
        Some (w1,
         tr1 @ [E_ReadMsg d (ReadErr ErrReadTimeout), E_Debugf ''error reading message'',
                E_Reset]))"
proof -
  have a: "\<forall>rs'. map snd rs' = map snd (incoming s) \<longrightarrow>
      fst (handleNewMessage dht (s\<lparr>incoming := rs'\<rparr>) tr) = fst (handleNewMessage dht s tr) \<and>
      fst (snd (handleNewMessage dht (s\<lparr>incoming := rs'\<rparr>) tr)) =
        fst (snd (handleNewMessage dht s tr))"
  proof (intro allI impI)
    fix rs' :: "(nanos \<times> read_result) list"
    assume m: "map snd rs' = map snd (incoming s)"
    show "fst (handleNewMessage dht (s\<lparr>incoming := rs'\<rparr>) tr) = fst (handleNewMessage dht s tr) \<and>
      fst (snd (handleNewMessage dht (s\<lparr>incoming := rs'\<rparr>) tr)) =
        fst (snd (handleNewMessage dht s tr))"
      unfolding handleNewMessage_def
      using loop_waits [OF m, where dht = dht and s = s and i = rs' and w = newBufferedDelimitedWriter]
      by (subst loop_result_any, subst (2) loop_result_any,
          subst loop_writer_any, subst (2) loop_writer_any) simp
  qed
  have b: "\<forall>pre d post w1 tr1.
      incoming s = pre @ (d, ReadErr ErrReadTimeout) # post \<and>
      handleNewMessage_loop dht s pre newBufferedDelimitedWriter tr = (None, w1, tr1) \<longrightarrow>
      handleNewMessage dht s tr =
        (Some False, w1,
         tr1 @ [E_ReadMsg d (ReadErr ErrReadTimeout), E_Debugf ''error reading message'']) \<and>
      handleNewStream dht s tr =
        Some (w1,
         tr1 @ [E_ReadMsg d (ReadErr ErrReadTimeout), E_Debugf ''error reading message'',
                E_Reset])"
    unfolding handleNewStream_def handleNewMessage_def
    using loop_read_error [of dht s _ newBufferedDelimitedWriter tr _ _ _ ErrReadTimeout]
    by (simp add: ErrReadTimeout_def)
  from a b show ?thesis by blast
qed

theorem handleNewMessage_no_deadline_witness:
  "map snd [(120000000000 :: nanos, ReadOk ex_req), (0, ReadErr EOF)] =
     map snd (incoming (ex_stream [(1, ReadOk ex_req), (1, ReadErr EOF)])) \<and>
   fst (handleNewMessage ex_dht (ex_stream [(1, ReadOk ex_req), (1, ReadErr EOF)]) []) =
     Some True \<and>
   fst (handleNewMessage ex_dht
     ((ex_stream [(1, ReadOk ex_req), (1, ReadErr EOF)])
        \<lparr>incoming := [(120000000000, ReadOk ex_req), (0, ReadErr EOF)]\<rparr>) []) = Some True \<and>
   incoming (ex_stream [(60000000000, ReadErr ErrReadTimeout)]) =
     [] @ (60000000000, ReadErr ErrReadTimeout) # [] \<and>
   handleNewStream ex_dht (ex_stream [(60000000000, ReadErr ErrReadTimeout)]) [] =
     Some (\<lparr>Writer = [], flushed = []\<rparr>,
       [E_ReadMsg 60000000000 (ReadErr ErrReadTimeout), E_Debugf ''error reading message'',
        E_Reset])"
proof -
  let ?s = "ex_stream [(1, ReadOk ex_req), (1, ReadErr EOF)]"
  let ?t = "ex_stream [(60000000000, ReadErr ErrReadTimeout)]"
  have m: "map snd [(120000000000 :: nanos, ReadOk ex_req), (0, ReadErr EOF)] = map snd (incoming ?s)"
    by (simp add: ex_stream_def)
  have r: "fst (handleNewMessage ex_dht ?s []) = Some True"
    by (simp add: run_defs ex_defs)
  have j: "incoming ?t = [] @ (60000000000, ReadErr ErrReadTimeout) # []"
    by (simp add: ex_stream_def)
  have k: "handleNewMessage_loop ex_dht ?t [] newBufferedDelimitedWriter [] =
     (None, \<lparr>Writer = [], flushed = []\<rparr>, [])"
    by (simp add: newBufferedDelimitedWriter_def)
  have a: "fst (handleNewMessage ex_dht
     (?s\<lparr>incoming := [(120000000000, ReadOk ex_req), (0, ReadErr EOF)]\<rparr>) []) = Some True"
    using handleNewMessage_no_deadline [of ?s ex_dht "[]", THEN conjunct1, rule_format, OF m] r
    by simp
  have b: "handleNewStream ex_dht ?t [] =
     Some (\<lparr>Writer = [], flushed = []\<rparr>,
       [E_ReadMsg 60000000000 (ReadErr ErrReadTimeout), E_Debugf ''error reading message'',
        E_Reset])"
    using handleNewMessage_no_deadline
      [of ?t ex_dht "[]", THEN conjunct2, rule_format, OF conjI [OF j k]]
    by simp
  from m r a j b show ?thesis by simp
qed

end
